theory Spec2Isabelle
  imports Main
begin

section \<open>Python values and exceptions\<close>

text \<open>
  The values that reach \<^verbatim>\<open>json.dumps\<close> and come out of \<^verbatim>\<open>json.load\<close>.
  A Python \<^verbatim>\<open>str\<close> is a \<open>string\<close> whose characters are the code points 0 to 255;
  a \<^verbatim>\<open>dict\<close> with \<^verbatim>\<open>str\<close> keys is an association list in insertion order;
  \<open>PTuple\<close> is a \<^verbatim>\<open>tuple\<close>, which is never equal to a \<^verbatim>\<open>list\<close>;
  \<open>PObj s\<close> is any object that \<^verbatim>\<open>json\<close> cannot serialise natively, with \<open>s\<close> what
  \<^verbatim>\<open>str()\<close> gives for it. Floating-point numbers are left out.
\<close>

datatype pyval =
    PNone
  | PBool bool
  | PInt int
  | PStr string
  | PList "pyval list"
  | PTuple "pyval list"
  | PDict "(string \<times> pyval) list"
  | PObj string

text \<open>
  Modelled from the spec: the class \<^verbatim>\<open>OpenVikingError\<close> of \<^verbatim>\<open>openviking_cli.exceptions\<close> is
  not part of the sources; the spec describes it as a tagged (code, message, details)
  error with string code and message and details of any shape.
\<close>

record OpenVikingError =
  code :: string
  message :: string
  details :: pyval

text \<open>
  What a call can raise. \<open>OVError\<close>, \<open>TypeError\<close>, \<open>AttributeError\<close>, \<open>JSONDecodeError\<close> and
  \<open>OtherException\<close> are subclasses of Python's \<^verbatim>\<open>Exception\<close>; \<open>KeyboardInterrupt\<close> and
  \<open>SystemExit\<close> derive from \<^verbatim>\<open>BaseException\<close> only.
\<close>

datatype py_exception =
    OVError OpenVikingError
  | TypeError
  | AttributeError
  | JSONDecodeError
  | OtherException string
  | KeyboardInterrupt
  | SystemExit

fun is_Exception :: "py_exception \<Rightarrow> bool" where
  "is_Exception KeyboardInterrupt = False"
| "is_Exception SystemExit = False"
| "is_Exception _ = True"

section \<open>\<^verbatim>\<open>json.dumps\<close> with its default settings\<close>

definition hex_digit :: "nat \<Rightarrow> char" where
  "hex_digit d = ''0123456789abcdef'' ! d"

text \<open>
  \<^verbatim>\<open>py_encode_basestring_ascii\<close>: the quote and the backslash are escaped, the five
  control characters with a short form use it, every other character outside
  \<^verbatim>\<open>' '..'~'\<close> becomes \<^verbatim>\<open>\u00xx\<close>.
\<close>

definition escape_char :: "char \<Rightarrow> string" where
  "escape_char c =
     (if c = CHR 0x22 then [CHR 0x5C, CHR 0x22]
      else if c = CHR 0x5C then [CHR 0x5C, CHR 0x5C]
      else if c = CHR 0x0A then [CHR 0x5C, CHR ''n'']
      else if c = CHR 0x0D then [CHR 0x5C, CHR ''r'']
      else if c = CHR 0x09 then [CHR 0x5C, CHR ''t'']
      else if c = CHR 0x0C then [CHR 0x5C, CHR ''f'']
      else if c = CHR 0x08 then [CHR 0x5C, CHR ''b'']
      else if 32 \<le> (of_char c :: nat) \<and> (of_char c :: nat) \<le> 126 then [c]
      else [CHR 0x5C, CHR ''u'', CHR ''0'', CHR ''0'',
            hex_digit (of_char c div 16), hex_digit (of_char c mod 16)])"

definition encode_basestring_ascii :: "string \<Rightarrow> string" where
  "encode_basestring_ascii s = CHR 0x22 # concat (map escape_char s) @ [CHR 0x22]"

definition digit_char :: "nat \<Rightarrow> char" where
  "digit_char d = ''0123456789'' ! d"

function dec_digits :: "nat \<Rightarrow> string" where
  "dec_digits n =
     (if n < 10 then [digit_char n] else dec_digits (n div 10) @ [digit_char (n mod 10)])"
  by pat_completeness auto
termination
  by (relation "measure id") auto

declare dec_digits.simps [simp del]

definition int_repr :: "int \<Rightarrow> string" where
  "int_repr i = (if i < 0 then CHR ''-'' # dec_digits (nat (- i)) else dec_digits (nat i))"

fun join :: "string \<Rightarrow> string list \<Rightarrow> string" where
  "join sep [] = []"
| "join sep [x] = x"
| "join sep (x # y # ys) = x @ sep @ join sep (y # ys)"

text \<open>
  The text \<^verbatim>\<open>json.dumps\<close> writes, with the separators \<^verbatim>\<open>", "\<close> and \<^verbatim>\<open>": "\<close>. A tuple
  is written as an array, like a list. An object
  that is not native is written as the JSON string of its \<^verbatim>\<open>str()\<close>, which is what the
  hook \<^verbatim>\<open>default=str\<close> does; without the hook such an object is a \<^verbatim>\<open>TypeError\<close>, see
  \<open>json_dumps\<close>.
\<close>

fun encode :: "pyval \<Rightarrow> string" where
  "encode PNone = ''null''"
| "encode (PBool b) = (if b then ''true'' else ''false'')"
| "encode (PInt i) = int_repr i"
| "encode (PStr s) = encode_basestring_ascii s"
| "encode (PList vs) = ''['' @ join '', '' (map encode vs) @ '']''"
| "encode (PTuple vs) = ''['' @ join '', '' (map encode vs) @ '']''"
| "encode (PDict kvs) =
     ''{'' @ join '', '' (map (\<lambda>kv. encode_basestring_ascii (fst kv) @ '': '' @ encode (snd kv)) kvs)
       @ ''}''"
| "encode (PObj s) = encode_basestring_ascii s"

fun serializable :: "pyval \<Rightarrow> bool" where
  "serializable (PObj s) = False"
| "serializable (PList vs) = list_all serializable vs"
| "serializable (PTuple vs) = list_all serializable vs"
| "serializable (PDict kvs) = list_all (\<lambda>kv. serializable (snd kv)) kvs"
| "serializable _ = True"

text \<open>\<open>json_dumps True\<close> is \<^verbatim>\<open>json.dumps(obj, default=str)\<close>, \<open>json_dumps False\<close> is \<^verbatim>\<open>json.dumps(obj)\<close>.\<close>

definition json_dumps :: "bool \<Rightarrow> pyval \<Rightarrow> py_exception + string" where
  "json_dumps default_str obj =
     (if default_str \<or> serializable obj then Inr (encode obj) else Inl TypeError)"

section \<open>\<^verbatim>\<open>json.loads\<close>\<close>

text \<open>
  The reader that tells what a text written by \<open>encode\<close> parses back to. It follows
  \<^verbatim>\<open>json.loads\<close> on texts without fractional numbers: white space between tokens,
  strict strings (no raw control character), no leading zero, the last of two equal keys
  of an object wins. \<open>None\<close> is \<^verbatim>\<open>JSONDecodeError\<close>. The first argument of the three
  scanners bounds the number of nested calls; \<open>json_loads\<close> starts them with more than
  the length of the text.
\<close>

definition is_ws :: "char \<Rightarrow> bool" where
  "is_ws c = (c = CHR '' '' \<or> c = CHR 0x09 \<or> c = CHR 0x0A \<or> c = CHR 0x0D)"

fun skip_ws :: "string \<Rightarrow> string" where
  "skip_ws [] = []"
| "skip_ws (c # cs) = (if is_ws c then skip_ws cs else c # cs)"

definition hex_val :: "char \<Rightarrow> nat option" where
  "hex_val c =
     (let n = (of_char c :: nat) in
      if 48 \<le> n \<and> n \<le> 57 then Some (n - 48)
      else if 97 \<le> n \<and> n \<le> 102 then Some (n - 87)
      else if 65 \<le> n \<and> n \<le> 70 then Some (n - 55)
      else None)"

definition unescape :: "char \<Rightarrow> char option" where
  "unescape e =
     (if e = CHR 0x22 then Some (CHR 0x22)
      else if e = CHR 0x5C then Some (CHR 0x5C)
      else if e = CHR ''/'' then Some (CHR ''/'')
      else if e = CHR ''b'' then Some (CHR 0x08)
      else if e = CHR ''f'' then Some (CHR 0x0C)
      else if e = CHR ''n'' then Some (CHR 0x0A)
      else if e = CHR ''r'' then Some (CHR 0x0D)
      else if e = CHR ''t'' then Some (CHR 0x09)
      else None)"

definition hex4 :: "char \<Rightarrow> char \<Rightarrow> char \<Rightarrow> char \<Rightarrow> char option" where
  "hex4 a b c d =
     (case (hex_val a, hex_val b, hex_val c, hex_val d) of
        (Some x, Some y, Some z, Some w) \<Rightarrow>
          (let n = 4096 * x + 256 * y + 16 * z + w in
           if n < 256 then Some (char_of n) else None)
      | _ \<Rightarrow> None)"

definition cons_result :: "char \<Rightarrow> (string \<times> string) option \<Rightarrow> (string \<times> string) option" where
  "cons_result c r = (case r of None \<Rightarrow> None | Some (s, rest) \<Rightarrow> Some (c # s, rest))"

fun scanstring :: "string \<Rightarrow> (string \<times> string) option" where
  "scanstring [] = None"
| "scanstring (c # cs) =
     (if c = CHR 0x22 then Some ([], cs)
      else if c = CHR 0x5C then
        (case cs of
           [] \<Rightarrow> None
         | e # cs1 \<Rightarrow>
             if e = CHR ''u'' then
               (case cs1 of
                  a # b # x # d # cs2 \<Rightarrow>
                    (case hex4 a b x d of
                       None \<Rightarrow> None
                     | Some ch \<Rightarrow> cons_result ch (scanstring cs2))
                | _ \<Rightarrow> None)
             else
               (case unescape e of
                  None \<Rightarrow> None
                | Some ch \<Rightarrow> cons_result ch (scanstring cs1)))
      else if (of_char c :: nat) < 32 then None
      else cons_result c (scanstring cs))"

definition is_digit :: "char \<Rightarrow> bool" where
  "is_digit c = (48 \<le> (of_char c :: nat) \<and> (of_char c :: nat) \<le> 57)"

fun scan_digits :: "nat \<Rightarrow> string \<Rightarrow> nat \<times> string" where
  "scan_digits acc [] = (acc, [])"
| "scan_digits acc (c # cs) =
     (if is_digit c then scan_digits (10 * acc + (of_char c - 48)) cs else (acc, c # cs))"

definition starts_fraction :: "string \<Rightarrow> bool" where
  "starts_fraction s = (case s of [] \<Rightarrow> False | c # _ \<Rightarrow> c = CHR ''.'' \<or> c = CHR ''e'' \<or> c = CHR ''E'')"

definition scan_nat :: "string \<Rightarrow> (nat \<times> string) option" where
  "scan_nat s =
     (case s of
        [] \<Rightarrow> None
      | c # cs \<Rightarrow>
          if c = CHR ''0'' then (if starts_fraction cs then None else Some (0, cs))
          else if is_digit c then
            (let (n, rest) = scan_digits 0 (c # cs) in
             if starts_fraction rest then None else Some (n, rest))
          else None)"

definition scan_number :: "string \<Rightarrow> (int \<times> string) option" where
  "scan_number s =
     (case s of
        [] \<Rightarrow> None
      | c # cs \<Rightarrow>
          if c = CHR ''-'' then map_option (\<lambda>(n, rest). (- int n, rest)) (scan_nat cs)
          else map_option (\<lambda>(n, rest). (int n, rest)) (scan_nat s))"

fun dict_set :: "string \<Rightarrow> pyval \<Rightarrow> (string \<times> pyval) list \<Rightarrow> (string \<times> pyval) list" where
  "dict_set k v [] = [(k, v)]"
| "dict_set k v ((k', v') # d) = (if k' = k then (k, v) # d else (k', v') # dict_set k v d)"

definition dict_of_pairs :: "(string \<times> pyval) list \<Rightarrow> (string \<times> pyval) list" where
  "dict_of_pairs ps = foldl (\<lambda>d kv. dict_set (fst kv) (snd kv) d) [] ps"

fun scan_value :: "nat \<Rightarrow> string \<Rightarrow> (pyval \<times> string) option"
  and scan_elements :: "nat \<Rightarrow> string \<Rightarrow> (pyval list \<times> string) option"
  and scan_members :: "nat \<Rightarrow> string \<Rightarrow> ((string \<times> pyval) list \<times> string) option"
where
  "scan_value 0 s = None"
| "scan_value (Suc n) s =
     (case skip_ws s of
        [] \<Rightarrow> None
      | c # cs \<Rightarrow>
          if c = CHR 0x22 then map_option (\<lambda>(t, rest). (PStr t, rest)) (scanstring cs)
          else if c = CHR ''['' then
            (case skip_ws cs of
               [] \<Rightarrow> None
             | d # ds \<Rightarrow>
                 if d = CHR '']'' then Some (PList [], ds)
                 else map_option (\<lambda>(vs, rest). (PList vs, rest)) (scan_elements n (d # ds)))
          else if c = CHR ''{'' then
            (case skip_ws cs of
               [] \<Rightarrow> None
             | d # ds \<Rightarrow>
                 if d = CHR ''}'' then Some (PDict [], ds)
                 else map_option (\<lambda>(kvs, rest). (PDict (dict_of_pairs kvs), rest))
                        (scan_members n (d # ds)))
          else if take 4 (c # cs) = ''null'' then Some (PNone, drop 4 (c # cs))
          else if take 4 (c # cs) = ''true'' then Some (PBool True, drop 4 (c # cs))
          else if take 5 (c # cs) = ''false'' then Some (PBool False, drop 5 (c # cs))
          else map_option (\<lambda>(i, rest). (PInt i, rest)) (scan_number (c # cs)))"
| "scan_elements 0 s = None"
| "scan_elements (Suc n) s =
     (case scan_value n s of
        None \<Rightarrow> None
      | Some (v, rest) \<Rightarrow>
          (case skip_ws rest of
             [] \<Rightarrow> None
           | c # cs \<Rightarrow>
               if c = CHR '','' then
                 map_option (\<lambda>(vs, rest'). (v # vs, rest')) (scan_elements n cs)
               else if c = CHR '']'' then Some ([v], cs)
               else None))"
| "scan_members 0 s = None"
| "scan_members (Suc n) s =
     (case skip_ws s of
        [] \<Rightarrow> None
      | q # s1 \<Rightarrow>
          if q \<noteq> CHR 0x22 then None
          else
            (case scanstring s1 of
               None \<Rightarrow> None
             | Some (k, s2) \<Rightarrow>
                 (case skip_ws s2 of
                    [] \<Rightarrow> None
                  | c # s3 \<Rightarrow>
                      if c \<noteq> CHR '':'' then None
                      else
                        (case scan_value n s3 of
                           None \<Rightarrow> None
                         | Some (v, s4) \<Rightarrow>
                             (case skip_ws s4 of
                                [] \<Rightarrow> None
                              | d # s5 \<Rightarrow>
                                  if d = CHR '','' then
                                    map_option (\<lambda>(kvs, rest). ((k, v) # kvs, rest))
                                      (scan_members n s5)
                                  else if d = CHR ''}'' then Some ([(k, v)], s5)
                                  else None)))))"

definition json_loads :: "string \<Rightarrow> pyval option" where
  "json_loads s =
     (case scan_value (Suc (length s)) s of
        None \<Rightarrow> None
      | Some (v, rest) \<Rightarrow> if skip_ws rest = [] then Some v else None)"

section \<open>errors.py\<close>

definition format_error :: "OpenVikingError \<Rightarrow> py_exception + string" where
  "format_error e =
     json_dumps True
       (PDict [(''error'', PBool True), (''code'', PStr (code e)),
               (''message'', PStr (message e)), (''details'', details e)])"

definition permission_denied :: "string \<Rightarrow> py_exception + string" where
  "permission_denied msg =
     json_dumps False
       (PDict [(''error'', PBool True), (''code'', PStr ''PERMISSION_DENIED''),
               (''message'', PStr msg)])"

section \<open>Identities and the request context (context.py)\<close>

text \<open>
  Modelled from the spec: \<^verbatim>\<open>Role\<close>, \<^verbatim>\<open>ResolvedIdentity\<close> and \<^verbatim>\<open>RequestContext\<close> of
  \<^verbatim>\<open>openviking.server.identity\<close> and \<^verbatim>\<open>UserIdentifier\<close> of \<^verbatim>\<open>openviking_cli.session.user_id\<close>
  are not part of the sources. The spec gives Role as the enumeration ROOT, ADMIN, USER,
  UserIdentifier as a triple (account, user, agent), ResolvedIdentity as three optional
  strings and a Role, RequestContext as a (UserIdentifier, Role) pair. The role of a
  resolved identity is the field \<open>identity_role\<close>, the user part of a UserIdentifier is
  \<open>user_name\<close>, because record fields share one name space.
\<close>

datatype Role = ROOT | ADMIN | USER

record UserIdentifier =
  account :: string
  user_name :: string
  agent :: string

record ResolvedIdentity =
  account_id :: "string option"
  user_id :: "string option"
  agent_id :: "string option"
  identity_role :: Role

record RequestContext =
  user :: UserIdentifier
  role :: Role

text \<open>
  Modelled from the spec: \<^verbatim>\<open>OpenVikingService\<close> and \<^verbatim>\<open>APIKeyManager\<close> are external; only
  their calls appear in the sources. Each is the record of what its methods answer:
  a value or an exception. \<open>resolve\<close> is the key-store lookup of a bearer token.
\<close>

record OpenVikingService =
  initialize :: "py_exception + unit"
  agfs_url :: pyval
  initialize_account_directories :: "RequestContext \<Rightarrow> py_exception + unit"
  initialize_user_directories :: "RequestContext \<Rightarrow> py_exception + unit"
  close :: "py_exception + unit"

record APIKeyManager =
  load :: "py_exception + unit"
  resolve :: "string \<Rightarrow> py_exception + ResolvedIdentity option"
  create_account :: "string \<Rightarrow> string \<Rightarrow> py_exception + pyval"
  get_accounts :: "py_exception + pyval"
  delete_account :: "string \<Rightarrow> py_exception + unit"
  register_user :: "string \<Rightarrow> string \<Rightarrow> string \<Rightarrow> py_exception + pyval"
  get_users :: "string \<Rightarrow> py_exception + pyval"
  remove_user :: "string \<Rightarrow> string \<Rightarrow> py_exception + unit"
  set_role :: "string \<Rightarrow> string \<Rightarrow> string \<Rightarrow> py_exception + unit"

record AppContext =
  service :: OpenVikingService
  api_key_manager :: "APIKeyManager option"

text \<open>
  The session of a call with its dynamic attribute \<^verbatim>\<open>_ov_identity\<close>: \<open>None\<close> when the
  attribute was never set, \<open>Some None\<close> when it holds \<^verbatim>\<open>None\<close>, \<open>Some (Some i)\<close> when it
  holds an identity. \<open>Context\<close> is the tool context, \<^verbatim>\<open>ctx.request_context\<close> flattened.
\<close>

record Session =
  ov_identity :: "ResolvedIdentity option option"

record Context =
  session :: Session
  lifespan_context :: AppContext

definition get_app :: "Context \<Rightarrow> AppContext" where
  "get_app ctx = lifespan_context ctx"

text \<open>\<^verbatim>\<open>getattr(session, "_ov_identity", None)\<close>\<close>

definition getattr_ov_identity :: "Session \<Rightarrow> ResolvedIdentity option" where
  "getattr_ov_identity s = (case ov_identity s of None \<Rightarrow> None | Some v \<Rightarrow> v)"

text \<open>\<^verbatim>\<open>x or d\<close> on an optional string: \<^verbatim>\<open>None\<close> and the empty string are falsy.\<close>

definition str_or :: "string option \<Rightarrow> string \<Rightarrow> string" where
  "str_or x d = (case x of None \<Rightarrow> d | Some s \<Rightarrow> if s = [] then d else s)"

definition get_request_context :: "Context \<Rightarrow> RequestContext" where
  "get_request_context ctx =
     (case getattr_ov_identity (session ctx) of
        Some identity \<Rightarrow>
          \<lparr>user = \<lparr>account = str_or (account_id identity) ''default'',
                   user_name = str_or (user_id identity) ''default'',
                   agent = str_or (agent_id identity) ''default''\<rparr>,
           role = identity_role identity\<rparr>
      | None \<Rightarrow>
          \<lparr>user = \<lparr>account = ''default'', user_name = ''default'', agent = ''default''\<rparr>,
           role = ROOT\<rparr>)"

section \<open>auth.py\<close>

definition resolve_identity ::
  "APIKeyManager option \<Rightarrow> string \<Rightarrow> py_exception + ResolvedIdentity option" where
  "resolve_identity key_manager token =
     (case key_manager of
        None \<Rightarrow> Inr None
      | Some km \<Rightarrow>
          (case resolve km token of
             Inr identity \<Rightarrow> Inr identity
           | Inl e \<Rightarrow> if is_Exception e then Inr None else Inl e))"

section \<open>config.py\<close>

record MCPServerConfig =
  host :: pyval
  port :: pyval
  root_api_key :: pyval
  cors_origins :: pyval

text \<open>The dataclass defaults, \<^verbatim>\<open>MCPServerConfig()\<close>.\<close>

definition default_config :: MCPServerConfig where
  "default_config =
     \<lparr>host = PStr ''0.0.0.0'', port = PInt 2033, root_api_key = PNone,
      cors_origins = PList [PStr ''*'']\<rparr>"

text \<open>
  \<^verbatim>\<open>d.get(key, default)\<close>: the value stored under the key when the key is there, whatever
  the value; an object that is not a \<^verbatim>\<open>dict\<close> has no \<^verbatim>\<open>get\<close>.
\<close>

definition py_get :: "pyval \<Rightarrow> string \<Rightarrow> pyval \<Rightarrow> py_exception + pyval" where
  "py_get d key dflt =
     (case d of
        PDict kvs \<Rightarrow> Inr (case map_of kvs key of Some v \<Rightarrow> v | None \<Rightarrow> dflt)
      | _ \<Rightarrow> Inl AttributeError)"

text \<open>
  The file named by the path: \<open>Missing\<close> when \<^verbatim>\<open>os.path.exists\<close> is false, \<open>Unreadable\<close>
  when \<^verbatim>\<open>open\<close> fails, \<open>Malformed\<close> when \<^verbatim>\<open>json.load\<close> fails, \<open>Document data\<close> otherwise.
\<close>

datatype config_file = Missing | Unreadable | Malformed | Document pyval

definition bind_exc :: "(py_exception + 'a) \<Rightarrow> ('a \<Rightarrow> py_exception + 'b) \<Rightarrow> py_exception + 'b" where
  "bind_exc r f = (case r of Inl e \<Rightarrow> Inl e | Inr x \<Rightarrow> f x)"

definition from_ov_conf :: "config_file \<Rightarrow> py_exception + MCPServerConfig" where
  "from_ov_conf file =
     (case file of
        Missing \<Rightarrow> Inr default_config
      | Unreadable \<Rightarrow> Inl (OtherException ''OSError'')
      | Malformed \<Rightarrow> Inl JSONDecodeError
      | Document data \<Rightarrow>
          bind_exc (py_get data ''server'' (PDict [])) (\<lambda>server.
          bind_exc (py_get data ''mcp_server'' (PDict [])) (\<lambda>mcp.
          bind_exc (py_get server ''host'' (PStr ''0.0.0.0'')) (\<lambda>server_host.
          bind_exc (py_get mcp ''host'' server_host) (\<lambda>h.
          bind_exc (py_get mcp ''port'' (PInt 2033)) (\<lambda>p.
          bind_exc (py_get server ''root_api_key'' PNone) (\<lambda>server_key.
          bind_exc (py_get mcp ''root_api_key'' server_key) (\<lambda>k.
          bind_exc (py_get server ''cors_origins'' (PList [PStr ''*''])) (\<lambda>server_cors.
          bind_exc (py_get mcp ''cors_origins'' server_cors) (\<lambda>c.
          Inr \<lparr>host = h, port = p, root_api_key = k, cors_origins = c\<rparr>))))))))))"

text \<open>
  The merge rule in the spec's words, for comparison: \<open>spec_member\<close> is the member access
  \<^verbatim>\<open>section.key\<close>, null when the section or the key is missing, and \<open>coalesce\<close> is \<^verbatim>\<open>??\<close>,
  which takes its right operand exactly when the left one is null.
\<close>

definition spec_member :: "pyval \<Rightarrow> string \<Rightarrow> pyval" where
  "spec_member d key =
     (case d of PDict kvs \<Rightarrow> (case map_of kvs key of Some v \<Rightarrow> v | None \<Rightarrow> PNone) | _ \<Rightarrow> PNone)"

definition coalesce :: "pyval \<Rightarrow> pyval \<Rightarrow> pyval" where
  "coalesce a b = (if a = PNone then b else a)"

definition spec_merge :: "pyval \<Rightarrow> MCPServerConfig" where
  "spec_merge data =
     (let server = spec_member data ''server''; mcp = spec_member data ''mcp_server'' in
      \<lparr>host = coalesce (spec_member mcp ''host'')
                (coalesce (spec_member server ''host'') (PStr ''0.0.0.0'')),
       port = coalesce (spec_member mcp ''port'') (PInt 2033),
       root_api_key = coalesce (spec_member mcp ''root_api_key'')
                (coalesce (spec_member server ''root_api_key'') PNone),
       cors_origins = coalesce (spec_member mcp ''cors_origins'')
                (coalesce (spec_member server ''cors_origins'') (PList [PStr ''*'']))\<rparr>)"

text \<open>
  The documents on which the sources do not raise: an object whose two sections, where
  present, are objects.
\<close>

definition section_of :: "pyval \<Rightarrow> string \<Rightarrow> (string \<times> pyval) list option" where
  "section_of data name =
     (case data of
        PDict kvs \<Rightarrow>
          (case map_of kvs name of
             None \<Rightarrow> Some []
           | Some (PDict sect) \<Rightarrow> Some sect
           | Some _ \<Rightarrow> None)
      | _ \<Rightarrow> None)"

definition lookup_or :: "(string \<times> pyval) list \<Rightarrow> string \<Rightarrow> pyval \<Rightarrow> pyval" where
  "lookup_or kvs key dflt = (case map_of kvs key of Some v \<Rightarrow> v | None \<Rightarrow> dflt)"

definition no_null_at :: "(string \<times> pyval) list \<Rightarrow> string \<Rightarrow> bool" where
  "no_null_at kvs key = (map_of kvs key \<noteq> Some PNone)"

section \<open>server.py\<close>




section \<open>tools/admin.py\<close>

definition require_root :: "Context \<Rightarrow> py_exception + string option" where
  "require_root ctx =
     (let request_ctx = get_request_context ctx in
      if role request_ctx \<noteq> ROOT then
        bind_exc (permission_denied ''ROOT role required'') (\<lambda>s. Inr (Some s))
      else Inr None)"

definition require_admin_or_root :: "Context \<Rightarrow> string \<Rightarrow> py_exception + string option" where
  "require_admin_or_root ctx acct =
     (let request_ctx = get_request_context ctx in
      if role request_ctx = ROOT then Inr None
      else if role request_ctx = ADMIN \<and> account (user request_ctx) = acct then Inr None
      else bind_exc (permission_denied ''ROOT or account ADMIN role required'')
             (\<lambda>s. Inr (Some s)))"

text \<open>
  What a call on the external packages is given: a value, a floating-point number (the
  mantissa and the binary exponent of a finite one), or the request context.
\<close>

datatype py_float = Finite int int | Infinity | NegInfinity | NaN

datatype argument =
    Value pyval
  | FloatValue py_float
  | RequestCtx RequestContext

text \<open>
  A tool body runs to a response or to an exception and leaves the list of the calls it
  made on the key manager and on the service, in order. The methods that the admin tools
  call have a constructor each; any other method of the service or of one of its parts is
  \<open>Call_service\<close> with the dotted name of the method, its positional and its keyword
  arguments, and a method of an object that the service handed out is \<open>Call_object\<close>.
\<close>

datatype ext_call =
    Call_create_account string string
  | Call_initialize_account_directories RequestContext
  | Call_get_accounts
  | Call_delete_account string
  | Call_register_user string string string
  | Call_initialize_user_directories RequestContext
  | Call_get_users string
  | Call_remove_user string string
  | Call_set_role string string string
  | Call_service string "argument list" "(string \<times> argument) list"
  | Call_object pyval string "argument list"

type_synonym 'a io = "ext_call list \<times> (py_exception + 'a)"

definition returns :: "(py_exception + 'a) \<Rightarrow> 'a io" where
  "returns r = ([], r)"

definition calls :: "ext_call \<Rightarrow> (py_exception + 'a) \<Rightarrow> 'a io" where
  "calls c r = ([c], r)"

definition and_then :: "'a io \<Rightarrow> ('a \<Rightarrow> 'b io) \<Rightarrow> 'b io" where
  "and_then m f =
     (case snd m of
        Inl e \<Rightarrow> (fst m, Inl e)
      | Inr x \<Rightarrow> (fst m @ fst (f x), snd (f x)))"

text \<open>\<^verbatim>\<open>try: ... except OpenVikingError as e: return format_error(e)\<close>\<close>

definition except_OpenVikingError :: "string io \<Rightarrow> string io" where
  "except_OpenVikingError m =
     (case snd m of
        Inl (OVError e) \<Rightarrow> (fst m, format_error e)
      | _ \<Rightarrow> m)"

text \<open>
  \<^verbatim>\<open>if err := guard: return err\<close>: the guard may raise; a result that is \<^verbatim>\<open>None\<close> or the
  empty string is falsy and lets the body run.
\<close>

definition guarded :: "(py_exception + string option) \<Rightarrow> string io \<Rightarrow> string io" where
  "guarded guard body =
     and_then (returns guard) (\<lambda>err.
       case err of
         None \<Rightarrow> body
       | Some s \<Rightarrow> if s = [] then body else returns (Inr s))"

text \<open>
  \<^verbatim>\<open>app = get_app(ctx); if app.api_key_manager is None: return permission_denied(...)\<close>
\<close>

definition with_key_manager :: "Context \<Rightarrow> (AppContext \<Rightarrow> APIKeyManager \<Rightarrow> string io) \<Rightarrow> string io" where
  "with_key_manager ctx body =
     (let app = get_app ctx in
      case api_key_manager app of
        None \<Rightarrow> returns (permission_denied ''Auth not configured (dev mode)'')
      | Some km \<Rightarrow> body app km)"

definition admin_create_account :: "string \<Rightarrow> string \<Rightarrow> Context \<Rightarrow> string io" where
  "admin_create_account acct admin_user ctx =
     except_OpenVikingError
       (guarded (require_root ctx)
         (with_key_manager ctx (\<lambda>app km.
            let request_ctx = get_request_context ctx in
            and_then (calls (Call_create_account acct admin_user)
                        (create_account km acct admin_user)) (\<lambda>user_key.
            and_then (calls (Call_initialize_account_directories request_ctx)
                        (initialize_account_directories (service app) request_ctx)) (\<lambda>_.
            returns (json_dumps False
              (PDict [(''account_id'', PStr acct), (''admin_user_id'', PStr admin_user),
                      (''user_key'', user_key)])))))))"

definition admin_list_accounts :: "Context \<Rightarrow> string io" where
  "admin_list_accounts ctx =
     except_OpenVikingError
       (guarded (require_root ctx)
         (with_key_manager ctx (\<lambda>app km.
            and_then (calls Call_get_accounts (get_accounts km)) (\<lambda>result.
            returns (json_dumps True result)))))"

definition admin_delete_account :: "string \<Rightarrow> Context \<Rightarrow> string io" where
  "admin_delete_account acct ctx =
     except_OpenVikingError
       (guarded (require_root ctx)
         (with_key_manager ctx (\<lambda>app km.
            and_then (calls (Call_delete_account acct) (delete_account km acct)) (\<lambda>_.
            returns (json_dumps False
              (PDict [(''account_id'', PStr acct), (''deleted'', PBool True)]))))))"

definition admin_register_user :: "string \<Rightarrow> string \<Rightarrow> string \<Rightarrow> Context \<Rightarrow> string io" where
  "admin_register_user acct uid new_role ctx =
     except_OpenVikingError
       (guarded (require_admin_or_root ctx acct)
         (with_key_manager ctx (\<lambda>app km.
            let request_ctx = get_request_context ctx in
            and_then (calls (Call_register_user acct uid new_role)
                        (register_user km acct uid new_role)) (\<lambda>user_key.
            and_then (calls (Call_initialize_user_directories request_ctx)
                        (initialize_user_directories (service app) request_ctx)) (\<lambda>_.
            returns (json_dumps False
              (PDict [(''account_id'', PStr acct), (''user_id'', PStr uid),
                      (''user_key'', user_key)])))))))"

definition admin_list_users :: "string \<Rightarrow> Context \<Rightarrow> string io" where
  "admin_list_users acct ctx =
     except_OpenVikingError
       (guarded (require_admin_or_root ctx acct)
         (with_key_manager ctx (\<lambda>app km.
            and_then (calls (Call_get_users acct) (get_users km acct)) (\<lambda>result.
            returns (json_dumps True result)))))"

definition admin_remove_user :: "string \<Rightarrow> string \<Rightarrow> Context \<Rightarrow> string io" where
  "admin_remove_user acct uid ctx =
     except_OpenVikingError
       (guarded (require_admin_or_root ctx acct)
         (with_key_manager ctx (\<lambda>app km.
            and_then (calls (Call_remove_user acct uid) (remove_user km acct uid)) (\<lambda>_.
            returns (json_dumps False
              (PDict [(''account_id'', PStr acct), (''user_id'', PStr uid),
                      (''deleted'', PBool True)]))))))"

definition admin_set_role :: "string \<Rightarrow> string \<Rightarrow> string \<Rightarrow> Context \<Rightarrow> string io" where
  "admin_set_role acct uid new_role ctx =
     except_OpenVikingError
       (guarded (require_root ctx)
         (with_key_manager ctx (\<lambda>app km.
            and_then (calls (Call_set_role acct uid new_role)
                        (set_role km acct uid new_role)) (\<lambda>_.
            returns (json_dumps False
              (PDict [(''account_id'', PStr acct), (''user_id'', PStr uid),
                      (''role'', PStr new_role)]))))))"

text \<open>The seven admin tools with their arguments, and the role gate each one starts with.\<close>

datatype admin_call =
    CreateAccount string string
  | ListAccounts
  | DeleteAccount string
  | RegisterUser string string string
  | ListUsers string
  | RemoveUser string string
  | SetRole string string string

fun run_admin_tool :: "admin_call \<Rightarrow> Context \<Rightarrow> string io" where
  "run_admin_tool (CreateAccount a u) ctx = admin_create_account a u ctx"
| "run_admin_tool ListAccounts ctx = admin_list_accounts ctx"
| "run_admin_tool (DeleteAccount a) ctx = admin_delete_account a ctx"
| "run_admin_tool (RegisterUser a u r) ctx = admin_register_user a u r ctx"
| "run_admin_tool (ListUsers a) ctx = admin_list_users a ctx"
| "run_admin_tool (RemoveUser a u) ctx = admin_remove_user a u ctx"
| "run_admin_tool (SetRole a u r) ctx = admin_set_role a u r ctx"

fun role_gate :: "admin_call \<Rightarrow> Context \<Rightarrow> py_exception + string option" where
  "role_gate (CreateAccount a u) ctx = require_root ctx"
| "role_gate ListAccounts ctx = require_root ctx"
| "role_gate (DeleteAccount a) ctx = require_root ctx"
| "role_gate (RegisterUser a u r) ctx = require_admin_or_root ctx a"
| "role_gate (ListUsers a) ctx = require_admin_or_root ctx a"
| "role_gate (RemoveUser a u) ctx = require_admin_or_root ctx a"
| "role_gate (SetRole a u r) ctx = require_root ctx"

section \<open>The shared context object\<close>

text \<open>
  The context that \<^verbatim>\<open>app_lifespan\<close> yields is one object, shared by every call; a tool
  reaches it through \<^verbatim>\<open>ctx.request_context.lifespan_context\<close>. To tell what a tool does to
  that object, each tool is given here statement by statement as a procedure on it: a
  procedure takes the object as it is when the statement starts and returns the object as
  the statement leaves it, together with the calls made and the outcome.
\<close>

type_synonym 'a proc = "AppContext \<Rightarrow> AppContext \<times> 'a io"

text \<open>Reading \<^verbatim>\<open>ctx\<close>: the session of the call and the shared object as it is now.\<close>

definition the_context :: "Session \<Rightarrow> Context proc" where
  "the_context s = (\<lambda>app. (app, returns (Inr \<lparr>session = s, lifespan_context = app\<rparr>)))"

text \<open>
  A statement that does not mention the object: a call on the key manager or on the
  service (they are given the request context and plain values, never the object),
  \<^verbatim>\<open>json.dumps\<close>, a \<^verbatim>\<open>return\<close>.
\<close>

definition run_io :: "'a io \<Rightarrow> 'a proc" where
  "run_io m = (\<lambda>app. (app, m))"

text \<open>
  What an assignment to a field of the object would be. No statement of the sources is an
  assignment of this kind, so no tool below uses these two.
\<close>

definition assign_service :: "OpenVikingService \<Rightarrow> unit proc" where
  "assign_service v = (\<lambda>app. (app\<lparr>service := v\<rparr>, returns (Inr ())))"

definition assign_api_key_manager :: "APIKeyManager option \<Rightarrow> unit proc" where
  "assign_api_key_manager v = (\<lambda>app. (app\<lparr>api_key_manager := v\<rparr>, returns (Inr ())))"

definition then_proc :: "'a proc \<Rightarrow> ('a \<Rightarrow> 'b proc) \<Rightarrow> 'b proc" where
  "then_proc m f =
     (\<lambda>app.
        case snd (snd (m app)) of
          Inl e \<Rightarrow> (fst (m app), (fst (snd (m app)), Inl e))
        | Inr x \<Rightarrow>
            (fst (f x (fst (m app))),
             (fst (snd (m app)) @ fst (snd (f x (fst (m app)))),
              snd (snd (f x (fst (m app)))))))"

definition except_OpenVikingError_proc :: "string proc \<Rightarrow> string proc" where
  "except_OpenVikingError_proc m = (\<lambda>app. (fst (m app), except_OpenVikingError (snd (m app))))"

definition guarded_proc :: "string option proc \<Rightarrow> string proc \<Rightarrow> string proc" where
  "guarded_proc guard body =
     then_proc guard (\<lambda>err.
       case err of
         None \<Rightarrow> body
       | Some s \<Rightarrow> if s = [] then body else run_io (returns (Inr s)))"

definition require_root_proc :: "Session \<Rightarrow> string option proc" where
  "require_root_proc s = then_proc (the_context s) (\<lambda>ctx. run_io (returns (require_root ctx)))"

definition require_admin_or_root_proc :: "Session \<Rightarrow> string \<Rightarrow> string option proc" where
  "require_admin_or_root_proc s acct =
     then_proc (the_context s) (\<lambda>ctx. run_io (returns (require_admin_or_root ctx acct)))"

text \<open>
  \<^verbatim>\<open>app = get_app(ctx); if app.api_key_manager is None: return permission_denied(...)\<close>,
  then the rest of the body with \<^verbatim>\<open>app\<close> and the key manager.
\<close>

definition with_key_manager_proc ::
  "Session \<Rightarrow> (AppContext \<Rightarrow> APIKeyManager \<Rightarrow> string proc) \<Rightarrow> string proc" where
  "with_key_manager_proc s body =
     then_proc (the_context s) (\<lambda>ctx.
       let app = get_app ctx in
       case api_key_manager app of
         None \<Rightarrow> run_io (returns (permission_denied ''Auth not configured (dev mode)''))
       | Some km \<Rightarrow> body app km)"

definition admin_create_account_proc :: "string \<Rightarrow> string \<Rightarrow> Session \<Rightarrow> string proc" where
  "admin_create_account_proc acct admin_user s =
     except_OpenVikingError_proc
       (guarded_proc (require_root_proc s)
         (with_key_manager_proc s (\<lambda>app km.
            then_proc (the_context s) (\<lambda>ctx.
            let request_ctx = get_request_context ctx in
            run_io
              (and_then (calls (Call_create_account acct admin_user)
                           (create_account km acct admin_user)) (\<lambda>user_key.
               and_then (calls (Call_initialize_account_directories request_ctx)
                           (initialize_account_directories (service app) request_ctx)) (\<lambda>_.
               returns (json_dumps False
                 (PDict [(''account_id'', PStr acct), (''admin_user_id'', PStr admin_user),
                         (''user_key'', user_key)])))))))))"

definition admin_list_accounts_proc :: "Session \<Rightarrow> string proc" where
  "admin_list_accounts_proc s =
     except_OpenVikingError_proc
       (guarded_proc (require_root_proc s)
         (with_key_manager_proc s (\<lambda>app km.
            run_io
              (and_then (calls Call_get_accounts (get_accounts km)) (\<lambda>result.
               returns (json_dumps True result))))))"

definition admin_delete_account_proc :: "string \<Rightarrow> Session \<Rightarrow> string proc" where
  "admin_delete_account_proc acct s =
     except_OpenVikingError_proc
       (guarded_proc (require_root_proc s)
         (with_key_manager_proc s (\<lambda>app km.
            run_io
              (and_then (calls (Call_delete_account acct) (delete_account km acct)) (\<lambda>_.
               returns (json_dumps False
                 (PDict [(''account_id'', PStr acct), (''deleted'', PBool True)])))))))"

definition admin_register_user_proc ::
  "string \<Rightarrow> string \<Rightarrow> string \<Rightarrow> Session \<Rightarrow> string proc" where
  "admin_register_user_proc acct uid new_role s =
     except_OpenVikingError_proc
       (guarded_proc (require_admin_or_root_proc s acct)
         (with_key_manager_proc s (\<lambda>app km.
            then_proc (the_context s) (\<lambda>ctx.
            let request_ctx = get_request_context ctx in
            run_io
              (and_then (calls (Call_register_user acct uid new_role)
                           (register_user km acct uid new_role)) (\<lambda>user_key.
               and_then (calls (Call_initialize_user_directories request_ctx)
                           (initialize_user_directories (service app) request_ctx)) (\<lambda>_.
               returns (json_dumps False
                 (PDict [(''account_id'', PStr acct), (''user_id'', PStr uid),
                         (''user_key'', user_key)])))))))))"

definition admin_list_users_proc :: "string \<Rightarrow> Session \<Rightarrow> string proc" where
  "admin_list_users_proc acct s =
     except_OpenVikingError_proc
       (guarded_proc (require_admin_or_root_proc s acct)
         (with_key_manager_proc s (\<lambda>app km.
            run_io
              (and_then (calls (Call_get_users acct) (get_users km acct)) (\<lambda>result.
               returns (json_dumps True result))))))"

definition admin_remove_user_proc :: "string \<Rightarrow> string \<Rightarrow> Session \<Rightarrow> string proc" where
  "admin_remove_user_proc acct uid s =
     except_OpenVikingError_proc
       (guarded_proc (require_admin_or_root_proc s acct)
         (with_key_manager_proc s (\<lambda>app km.
            run_io
              (and_then (calls (Call_remove_user acct uid) (remove_user km acct uid)) (\<lambda>_.
               returns (json_dumps False
                 (PDict [(''account_id'', PStr acct), (''user_id'', PStr uid),
                         (''deleted'', PBool True)])))))))"

definition admin_set_role_proc :: "string \<Rightarrow> string \<Rightarrow> string \<Rightarrow> Session \<Rightarrow> string proc" where
  "admin_set_role_proc acct uid new_role s =
     except_OpenVikingError_proc
       (guarded_proc (require_root_proc s)
         (with_key_manager_proc s (\<lambda>app km.
            run_io
              (and_then (calls (Call_set_role acct uid new_role)
                           (set_role km acct uid new_role)) (\<lambda>_.
               returns (json_dumps False
                 (PDict [(''account_id'', PStr acct), (''user_id'', PStr uid),
                         (''role'', PStr new_role)])))))))"

fun run_admin_tool_proc :: "admin_call \<Rightarrow> Session \<Rightarrow> string proc" where
  "run_admin_tool_proc (CreateAccount a u) s = admin_create_account_proc a u s"
| "run_admin_tool_proc ListAccounts s = admin_list_accounts_proc s"
| "run_admin_tool_proc (DeleteAccount a) s = admin_delete_account_proc a s"
| "run_admin_tool_proc (RegisterUser a u r) s = admin_register_user_proc a u r s"
| "run_admin_tool_proc (ListUsers a) s = admin_list_users_proc a s"
| "run_admin_tool_proc (RemoveUser a u) s = admin_remove_user_proc a u s"
| "run_admin_tool_proc (SetRole a u r) s = admin_set_role_proc a u r s"


text \<open>A procedure keeps the object when every run of it returns the object it was given.\<close>

definition keeps :: "'a proc \<Rightarrow> bool" where
  "keeps m = (\<forall>app. fst (m app) = app)"

section \<open>What a written text parses back to\<close>





text \<open>The object a permission denial stands for: three keys, no \<^verbatim>\<open>details\<close>.\<close>

definition denial :: "string \<Rightarrow> pyval" where
  "denial msg =
     PDict [(''error'', PBool True), (''code'', PStr ''PERMISSION_DENIED''),
            (''message'', PStr msg)]"

section \<open>Sample values\<close>

text \<open>Concrete services, identities and documents on which the theorems are instantiated.\<close>

definition sample_service :: OpenVikingService where
  "sample_service =
     \<lparr>initialize = Inr (), agfs_url = PStr ''http://localhost:1833'',
      initialize_account_directories = (\<lambda>rc. Inr ()),
      initialize_user_directories = (\<lambda>rc. Inr ()),
      close = Inr ()\<rparr>"

definition sample_identity :: "Role \<Rightarrow> ResolvedIdentity" where
  "sample_identity r =
     \<lparr>account_id = Some ''acme'', user_id = Some ''alice'', agent_id = None, identity_role = r\<rparr>"

definition sample_key_manager :: APIKeyManager where
  "sample_key_manager =
     \<lparr>load = Inr (),
      resolve = (\<lambda>token. if token = ''key-of-alice'' then Inr (Some (sample_identity ADMIN))
                          else Inl (OtherException ''UnauthenticatedError'')),
      create_account = (\<lambda>a u. Inr (PStr ''user-key-1'')),
      get_accounts = Inr (PList [PStr ''acme'']),
      delete_account = (\<lambda>a. Inr ()),
      register_user = (\<lambda>a u r. Inr (PStr ''user-key-2'')),
      get_users = (\<lambda>a. Inr (PList [PStr ''alice''])),
      remove_user = (\<lambda>a u. Inr ()),
      set_role = (\<lambda>a u r. Inr ())\<rparr>"

definition sample_context :: "ResolvedIdentity option \<Rightarrow> APIKeyManager option \<Rightarrow> Context" where
  "sample_context identity km =
     \<lparr>session = \<lparr>ov_identity = Some identity\<rparr>,
      lifespan_context = \<lparr>service = sample_service, api_key_manager = km\<rparr>\<rparr>"


text \<open>
  \<^verbatim>\<open>{"server": {"host": "A", "root_api_key": "k"}, "mcp_server": {"host": null, "root_api_key": null}}\<close>
  and \<^verbatim>\<open>{"server": {"host": "A", "port": 1}, "mcp_server": {"host": "B", "port": 9000}}\<close>
\<close>

definition null_document :: pyval where
  "null_document =
     PDict [(''server'', PDict [(''host'', PStr ''A''), (''root_api_key'', PStr ''k'')]),
            (''mcp_server'', PDict [(''host'', PNone), (''root_api_key'', PNone)])]"

definition sample_document :: pyval where
  "sample_document =
     PDict [(''server'', PDict [(''host'', PStr ''A''), (''port'', PInt 1)]),
            (''mcp_server'', PDict [(''host'', PStr ''B''), (''port'', PInt 9000)])]"




section \<open>Helper facts\<close>

lemma permission_denied_Inr: "permission_denied msg = Inr (encode (denial msg))"
  by (simp add: permission_denied_def json_dumps_def denial_def)

lemma encode_denial_nonempty: "encode (denial msg) \<noteq> []"
  by (simp add: denial_def)

lemma require_root_eq:
  "require_root ctx =
     (if role (get_request_context ctx) = ROOT then Inr None
      else Inr (Some (encode (denial ''ROOT role required''))))"
  by (simp add: require_root_def permission_denied_Inr bind_exc_def Let_def)

lemma require_admin_or_root_eq:
  "require_admin_or_root ctx acct =
     (if role (get_request_context ctx) = ROOT
         \<or> (role (get_request_context ctx) = ADMIN
             \<and> account (user (get_request_context ctx)) = acct)
      then Inr None
      else Inr (Some (encode (denial ''ROOT or account ADMIN role required''))))"
  by (simp add: require_admin_or_root_def permission_denied_Inr bind_exc_def Let_def)

lemma loads_root_denial:
  "json_loads (encode (denial ''ROOT role required'')) = Some (denial ''ROOT role required'')"
  by code_simp

lemma loads_admin_denial:
  "json_loads (encode (denial ''ROOT or account ADMIN role required''))
     = Some (denial ''ROOT or account ADMIN role required'')"
  by code_simp

lemma loads_dev_denial:
  "json_loads (encode (denial ''Auth not configured (dev mode)''))
     = Some (denial ''Auth not configured (dev mode)'')"
  by code_simp

section \<open>Guards, request context and identity resolution\<close>

text \<open>
  Claim C1. For every context and account identifier the admin-or-root guard returns no
  denial exactly when the role is ROOT, or the role is ADMIN and the account of the user
  is the given one; in every other case it returns a non-empty text that parses to the
  denial with code PERMISSION_DENIED and message "ROOT or account ADMIN role required";
  it never raises.
\<close>

theorem require_admin_or_root_authorizes_iff:
  "(require_admin_or_root ctx acct = Inr None \<longleftrightarrow>
      role (get_request_context ctx) = ROOT
      \<or> (role (get_request_context ctx) = ADMIN
          \<and> account (user (get_request_context ctx)) = acct))
   \<and> (\<not> (role (get_request_context ctx) = ROOT
          \<or> (role (get_request_context ctx) = ADMIN
              \<and> account (user (get_request_context ctx)) = acct)) \<longrightarrow>
        (\<exists>s. require_admin_or_root ctx acct = Inr (Some s) \<and> s \<noteq> []
           \<and> json_loads s = Some (denial ''ROOT or account ADMIN role required'')))
   \<and> (\<forall>e. require_admin_or_root ctx acct \<noteq> Inl e)"
  by (simp add: require_admin_or_root_eq loads_admin_denial encode_denial_nonempty)

theorem require_admin_or_root_authorizes_iff_witness:
  "role (get_request_context (sample_context (Some (sample_identity ADMIN)) None)) = ADMIN
   \<and> account (user (get_request_context (sample_context (Some (sample_identity ADMIN)) None)))
       = ''acme''
   \<and> require_admin_or_root (sample_context (Some (sample_identity ADMIN)) None) ''acme'' = Inr None
   \<and> require_admin_or_root (sample_context (Some (sample_identity ADMIN)) None) ''other''
       = Inr (Some (encode (denial ''ROOT or account ADMIN role required'')))
   \<and> json_loads (encode (denial ''ROOT or account ADMIN role required''))
       = Some (denial ''ROOT or account ADMIN role required'')"
  using require_admin_or_root_authorizes_iff
          [of "sample_context (Some (sample_identity ADMIN)) None" "''acme''"]
        require_admin_or_root_authorizes_iff
          [of "sample_context (Some (sample_identity ADMIN)) None" "''other''"]
  by (simp add: require_admin_or_root_eq loads_admin_denial get_request_context_def
        getattr_ov_identity_def sample_context_def sample_identity_def str_or_def)

text \<open>
  Claim C2. For every context the root guard returns no denial exactly when the role is
  ROOT; for every other role it returns a non-empty text that parses to the denial with
  code PERMISSION_DENIED and message "ROOT role required"; it never raises.
\<close>

theorem require_root_authorizes_iff:
  "(require_root ctx = Inr None \<longleftrightarrow> role (get_request_context ctx) = ROOT)
   \<and> (role (get_request_context ctx) \<noteq> ROOT \<longrightarrow>
        (\<exists>s. require_root ctx = Inr (Some s) \<and> s \<noteq> []
           \<and> json_loads s = Some (denial ''ROOT role required'')))
   \<and> (\<forall>e. require_root ctx \<noteq> Inl e)"
  by (simp add: require_root_eq loads_root_denial encode_denial_nonempty)

theorem require_root_authorizes_iff_witness:
  "role (get_request_context (sample_context (Some (sample_identity USER)) None)) \<noteq> ROOT
   \<and> require_root (sample_context (Some (sample_identity USER)) None)
       = Inr (Some (encode (denial ''ROOT role required'')))
   \<and> json_loads (encode (denial ''ROOT role required'')) = Some (denial ''ROOT role required'')
   \<and> require_root (sample_context None None) = Inr None"
  using require_root_authorizes_iff [of "sample_context (Some (sample_identity USER)) None"]
        require_root_authorizes_iff [of "sample_context None None"]
  by (simp add: require_root_eq loads_root_denial get_request_context_def
        getattr_ov_identity_def sample_context_def sample_identity_def str_or_def)

text \<open>
  Claim C3. When the identity slot of the session is absent (the attribute was never set,
  or holds \<^verbatim>\<open>None\<close>), the request context is exactly the user
  ("default", "default", "default") with role ROOT.
\<close>

theorem get_request_context_without_identity:
  "ov_identity (session ctx) = None \<or> ov_identity (session ctx) = Some None \<Longrightarrow>
   get_request_context ctx =
     \<lparr>user = \<lparr>account = ''default'', user_name = ''default'', agent = ''default''\<rparr>,
      role = ROOT\<rparr>"
  by (auto simp: get_request_context_def getattr_ov_identity_def)

theorem get_request_context_without_identity_witness:
  "ov_identity (session (sample_context None (Some sample_key_manager))) = Some None
   \<and> get_request_context (sample_context None (Some sample_key_manager)) =
       \<lparr>user = \<lparr>account = ''default'', user_name = ''default'', agent = ''default''\<rparr>,
        role = ROOT\<rparr>"
  using get_request_context_without_identity [of "sample_context None (Some sample_key_manager)"]
  by (simp add: sample_context_def)

text \<open>
  Claim C4. When the session holds a resolved identity, each of account, user and agent of
  the request context is the corresponding field of the identity, with "default" in the
  place of a field that is missing or empty; no field of the result is empty; the role is
  the role of the identity.
\<close>

theorem get_request_context_with_identity:
  "ov_identity (session ctx) = Some (Some i) \<Longrightarrow>
   account (user (get_request_context ctx)) =
     (case account_id i of None \<Rightarrow> ''default'' | Some s \<Rightarrow> if s = [] then ''default'' else s)
   \<and> user_name (user (get_request_context ctx)) =
     (case user_id i of None \<Rightarrow> ''default'' | Some s \<Rightarrow> if s = [] then ''default'' else s)
   \<and> agent (user (get_request_context ctx)) =
     (case agent_id i of None \<Rightarrow> ''default'' | Some s \<Rightarrow> if s = [] then ''default'' else s)
   \<and> account (user (get_request_context ctx)) \<noteq> []
   \<and> user_name (user (get_request_context ctx)) \<noteq> []
   \<and> agent (user (get_request_context ctx)) \<noteq> []
   \<and> role (get_request_context ctx) = identity_role i"
  by (simp add: get_request_context_def getattr_ov_identity_def str_or_def split: option.splits)

theorem get_request_context_with_identity_witness:
  "ov_identity (session (sample_context (Some (sample_identity ADMIN)) None))
     = Some (Some (sample_identity ADMIN))
   \<and> get_request_context (sample_context (Some (sample_identity ADMIN)) None) =
       \<lparr>user = \<lparr>account = ''acme'', user_name = ''alice'', agent = ''default''\<rparr>, role = ADMIN\<rparr>"
  using get_request_context_with_identity
          [of "sample_context (Some (sample_identity ADMIN)) None" "sample_identity ADMIN"]
  by (simp add: sample_context_def sample_identity_def get_request_context_def
        getattr_ov_identity_def str_or_def)

text \<open>
  Claim C5. Without a key manager the resolver returns absent for every token. With one,
  a failure of the lookup (an exception of class \<^verbatim>\<open>Exception\<close>: malformed token, store
  unavailable, internal fault) gives absent and is not propagated, so that a key manager
  whose lookup fails only in this way never makes the resolver raise; a lookup that
  returns gives its result. The resolver raises exactly when the lookup raises something
  outside \<^verbatim>\<open>Exception\<close>, which \<^verbatim>\<open>except Exception\<close> does not catch.
\<close>

theorem resolve_identity_absorbs_failures:
  "resolve_identity None token = Inr None
   \<and> (\<forall>e. resolve km token = Inl e \<and> is_Exception e \<longrightarrow>
          resolve_identity (Some km) token = Inr None)
   \<and> ((\<forall>e. resolve km token = Inl e \<longrightarrow> is_Exception e) \<longrightarrow>
          (\<exists>r. resolve_identity (Some km) token = Inr r))
   \<and> (\<forall>r. resolve km token = Inr r \<longrightarrow> resolve_identity (Some km) token = Inr r)
   \<and> (\<forall>e. resolve_identity (Some km) token = Inl e \<longleftrightarrow>
          resolve km token = Inl e \<and> \<not> is_Exception e)"
  by (cases "resolve km token") (auto simp: resolve_identity_def)

theorem resolve_identity_absorbs_failures_witness:
  "resolve sample_key_manager ''wrong'' = Inl (OtherException ''UnauthenticatedError'')
   \<and> is_Exception (OtherException ''UnauthenticatedError'')
   \<and> resolve_identity (Some sample_key_manager) ''wrong'' = Inr None
   \<and> resolve_identity None ''wrong'' = Inr None
   \<and> resolve_identity (Some sample_key_manager) ''key-of-alice''
       = Inr (Some (sample_identity ADMIN))"
  using resolve_identity_absorbs_failures [of "''wrong''" sample_key_manager]
        resolve_identity_absorbs_failures [of "''key-of-alice''" sample_key_manager]
  by (simp add: sample_key_manager_def)

section \<open>The context object over the life of the process\<close>

lemma keeps_the_context: "keeps (the_context s)"
  by (simp add: keeps_def the_context_def)

lemma keeps_run_io: "keeps (run_io m)"
  by (simp add: keeps_def run_io_def)

lemma keeps_then_proc: "keeps m \<Longrightarrow> (\<And>x. keeps (f x)) \<Longrightarrow> keeps (then_proc m f)"
  by (simp add: keeps_def then_proc_def split: sum.splits)

lemma keeps_except: "keeps m \<Longrightarrow> keeps (except_OpenVikingError_proc m)"
  by (simp add: keeps_def except_OpenVikingError_proc_def)

lemma keeps_guarded: "keeps g \<Longrightarrow> keeps body \<Longrightarrow> keeps (guarded_proc g body)"
  unfolding guarded_proc_def
  by (rule keeps_then_proc) (auto simp: keeps_run_io split: option.splits)

lemma keeps_require_root: "keeps (require_root_proc s)"
  unfolding require_root_proc_def
  by (intro keeps_then_proc keeps_the_context keeps_run_io)

lemma keeps_require_admin_or_root: "keeps (require_admin_or_root_proc s acct)"
  unfolding require_admin_or_root_proc_def
  by (intro keeps_then_proc keeps_the_context keeps_run_io)

lemma keeps_with_key_manager:
  "(\<And>app km. keeps (body app km)) \<Longrightarrow> keeps (with_key_manager_proc s body)"
  unfolding with_key_manager_proc_def
  by (rule keeps_then_proc) (auto simp: keeps_the_context keeps_run_io Let_def split: option.splits)

lemma assignment_does_not_keep:
  "fst (assign_api_key_manager None \<lparr>service = svc, api_key_manager = Some km\<rparr>)
     = \<lparr>service = svc, api_key_manager = None\<rparr>"
  by (simp add: assign_api_key_manager_def)

lemma keeps_run_admin_tool: "keeps (run_admin_tool_proc c s)"
  by (cases c)
     (simp_all add: admin_create_account_proc_def admin_list_accounts_proc_def
        admin_delete_account_proc_def admin_register_user_proc_def admin_list_users_proc_def
        admin_remove_user_proc_def admin_set_role_proc_def Let_def
        keeps_except keeps_guarded keeps_require_root keeps_require_admin_or_root
        keeps_with_key_manager keeps_then_proc keeps_the_context keeps_run_io)


lemma run_io_apply: "run_io m app = (app, m)"
  by (simp add: run_io_def)

lemma then_proc_run_io:
  "then_proc (run_io m) (\<lambda>x. run_io (f x)) = run_io (and_then m f)"
  by (rule ext) (simp add: then_proc_def run_io_def and_then_def split: sum.splits)

lemma except_run_io: "except_OpenVikingError_proc (\<lambda>app. (app, m app)) app
    = (app, except_OpenVikingError (m app))"
  by (simp add: except_OpenVikingError_proc_def)


















section \<open>The configuration merge\<close>

lemma py_get_dict: "py_get (PDict kvs) key dflt = Inr (lookup_or kvs key dflt)"
  by (simp add: py_get_def lookup_or_def)

lemma from_ov_conf_sections:
  assumes "section_of data ''server'' = Some server"
    and "section_of data ''mcp_server'' = Some mcp"
  shows "from_ov_conf (Document data) =
     Inr \<lparr>host = lookup_or mcp ''host'' (lookup_or server ''host'' (PStr ''0.0.0.0'')),
          port = lookup_or mcp ''port'' (PInt 2033),
          root_api_key = lookup_or mcp ''root_api_key'' (lookup_or server ''root_api_key'' PNone),
          cors_origins = lookup_or mcp ''cors_origins''
                           (lookup_or server ''cors_origins'' (PList [PStr ''*'']))\<rparr>"
proof -
  from assms obtain kvs where data: "data = PDict kvs"
    by (cases data) (simp_all add: section_of_def)
  from assms(1) data have s: "py_get data ''server'' (PDict []) = Inr (PDict server)"
    by (auto simp: section_of_def py_get_def split: option.splits pyval.splits)
  from assms(2) data have m: "py_get data ''mcp_server'' (PDict []) = Inr (PDict mcp)"
    by (auto simp: section_of_def py_get_def split: option.splits pyval.splits)
  show ?thesis
    by (simp add: from_ov_conf_def s m bind_exc_def py_get_dict)
qed

lemma spec_merge_sections:
  assumes "section_of data ''server'' = Some server"
    and "section_of data ''mcp_server'' = Some mcp"
  shows "spec_merge data =
     \<lparr>host = coalesce (lookup_or mcp ''host'' PNone)
               (coalesce (lookup_or server ''host'' PNone) (PStr ''0.0.0.0'')),
      port = coalesce (lookup_or mcp ''port'' PNone) (PInt 2033),
      root_api_key = coalesce (lookup_or mcp ''root_api_key'' PNone)
               (coalesce (lookup_or server ''root_api_key'' PNone) PNone),
      cors_origins = coalesce (lookup_or mcp ''cors_origins'' PNone)
               (coalesce (lookup_or server ''cors_origins'' PNone) (PList [PStr ''*'']))\<rparr>"
proof -
  from assms obtain kvs where data: "data = PDict kvs"
    by (cases data) (simp_all add: section_of_def)
  from assms(1) data have s: "\<And>k. spec_member (spec_member data ''server'') k = lookup_or server k PNone"
    by (auto simp: section_of_def spec_member_def lookup_or_def split: option.splits pyval.splits)
  from assms(2) data have m: "\<And>k. spec_member (spec_member data ''mcp_server'') k = lookup_or mcp k PNone"
    by (auto simp: section_of_def spec_member_def lookup_or_def split: option.splits pyval.splits)
  show ?thesis
    by (simp add: spec_merge_def Let_def s m)
qed

lemma coalesce_lookup:
  "no_null_at kvs key \<Longrightarrow> coalesce (lookup_or kvs key PNone) d = lookup_or kvs key d"
  by (auto simp: no_null_at_def coalesce_def lookup_or_def split: option.splits)

text \<open>
  Claim C8 reads the merge as \<^verbatim>\<open>mcp_server.x ?? server.x ?? default\<close>. On a document whose
  \<^verbatim>\<open>mcp_server\<close> section holds an explicit null the two differ: \<^verbatim>\<open>dict.get\<close> returns the null
  that is stored, \<^verbatim>\<open>??\<close> would fall through to the \<^verbatim>\<open>server\<close> section.
\<close>

theorem from_ov_conf_null_is_kept:
  "from_ov_conf (Document null_document)
     = Inr \<lparr>host = PNone, port = PInt 2033, root_api_key = PNone,
            cors_origins = PList [PStr ''*'']\<rparr>
   \<and> spec_merge null_document
     = \<lparr>host = PStr ''A'', port = PInt 2033, root_api_key = PStr ''k'',
        cors_origins = PList [PStr ''*'']\<rparr>
   \<and> from_ov_conf (Document null_document) \<noteq> Inr (spec_merge null_document)"
  by (simp add: from_ov_conf_def null_document_def py_get_def bind_exc_def spec_merge_def
        spec_member_def coalesce_def)

text \<open>
  Claim C8, amended. A missing file gives all defaults, no error. For a document that is
  an object whose \<^verbatim>\<open>server\<close> and \<^verbatim>\<open>mcp_server\<close> sections, where present, are objects: each of
  host, root_api_key and cors_origins is the value stored under the key in \<^verbatim>\<open>mcp_server\<close> when
  the key is there (whatever the value, null included), otherwise the value stored in
  \<^verbatim>\<open>server\<close> when the key is there, otherwise the default; the port is the value stored in
  \<^verbatim>\<open>mcp_server\<close> or 2033, never the port of \<^verbatim>\<open>server\<close>. When none of the values stored under
  these keys is null, this is the \<^verbatim>\<open>??\<close> rule of the spec.
\<close>

theorem from_ov_conf_merge:
  "from_ov_conf Missing = Inr default_config
   \<and> (section_of data ''server'' = Some server \<and> section_of data ''mcp_server'' = Some mcp \<longrightarrow>
        from_ov_conf (Document data) =
          Inr \<lparr>host = lookup_or mcp ''host'' (lookup_or server ''host'' (PStr ''0.0.0.0'')),
               port = lookup_or mcp ''port'' (PInt 2033),
               root_api_key =
                 lookup_or mcp ''root_api_key'' (lookup_or server ''root_api_key'' PNone),
               cors_origins =
                 lookup_or mcp ''cors_origins''
                   (lookup_or server ''cors_origins'' (PList [PStr ''*'']))\<rparr>
        \<and> (no_null_at mcp ''host'' \<and> no_null_at server ''host'' \<and> no_null_at mcp ''port''
             \<and> no_null_at mcp ''root_api_key'' \<and> no_null_at server ''root_api_key''
             \<and> no_null_at mcp ''cors_origins'' \<and> no_null_at server ''cors_origins'' \<longrightarrow>
             from_ov_conf (Document data) = Inr (spec_merge data)))"
proof (intro conjI impI)
  show "from_ov_conf Missing = Inr default_config"
    by (simp add: from_ov_conf_def)
next
  assume sect: "section_of data ''server'' = Some server \<and> section_of data ''mcp_server'' = Some mcp"
  then show "from_ov_conf (Document data) =
          Inr \<lparr>host = lookup_or mcp ''host'' (lookup_or server ''host'' (PStr ''0.0.0.0'')),
               port = lookup_or mcp ''port'' (PInt 2033),
               root_api_key =
                 lookup_or mcp ''root_api_key'' (lookup_or server ''root_api_key'' PNone),
               cors_origins =
                 lookup_or mcp ''cors_origins''
                   (lookup_or server ''cors_origins'' (PList [PStr ''*'']))\<rparr>"
    by (simp add: from_ov_conf_sections)
  assume "no_null_at mcp ''host'' \<and> no_null_at server ''host'' \<and> no_null_at mcp ''port''
             \<and> no_null_at mcp ''root_api_key'' \<and> no_null_at server ''root_api_key''
             \<and> no_null_at mcp ''cors_origins'' \<and> no_null_at server ''cors_origins''"
  with sect show "from_ov_conf (Document data) = Inr (spec_merge data)"
    by (simp add: from_ov_conf_sections spec_merge_sections coalesce_lookup)
qed

theorem from_ov_conf_merge_witness:
  "section_of sample_document ''server'' = Some [(''host'', PStr ''A''), (''port'', PInt 1)]
   \<and> section_of sample_document ''mcp_server'' = Some [(''host'', PStr ''B''), (''port'', PInt 9000)]
   \<and> no_null_at [(''host'', PStr ''B''), (''port'', PInt 9000)] ''host''
   \<and> no_null_at [(''host'', PStr ''A''), (''port'', PInt 1)] ''host''
   \<and> no_null_at [(''host'', PStr ''B''), (''port'', PInt 9000)] ''port''
   \<and> no_null_at [(''host'', PStr ''B''), (''port'', PInt 9000)] ''root_api_key''
   \<and> no_null_at [(''host'', PStr ''A''), (''port'', PInt 1)] ''root_api_key''
   \<and> no_null_at [(''host'', PStr ''B''), (''port'', PInt 9000)] ''cors_origins''
   \<and> no_null_at [(''host'', PStr ''A''), (''port'', PInt 1)] ''cors_origins''
   \<and> from_ov_conf (Document sample_document)
       = Inr \<lparr>host = PStr ''B'', port = PInt 9000, root_api_key = PNone,
              cors_origins = PList [PStr ''*'']\<rparr>
   \<and> from_ov_conf (Document sample_document) = Inr (spec_merge sample_document)"
  using from_ov_conf_merge
          [of sample_document "[(''host'', PStr ''A''), (''port'', PInt 1)]"
              "[(''host'', PStr ''B''), (''port'', PInt 9000)]"]
  by (simp add: sample_document_def section_of_def no_null_at_def lookup_or_def
        from_ov_conf_def py_get_def bind_exc_def spec_merge_def spec_member_def coalesce_def)

section \<open>The admin tools\<close>

lemma guarded_None: "guarded (Inr None) body = body"
  by (simp add: guarded_def and_then_def returns_def)

lemma guarded_Some: "s \<noteq> [] \<Longrightarrow> guarded (Inr (Some s)) body = ([], Inr s)"
  by (simp add: guarded_def and_then_def returns_def)

lemma except_OpenVikingError_Inr: "except_OpenVikingError (tr, Inr s) = (tr, Inr s)"
  by (simp add: except_OpenVikingError_def)

lemma with_key_manager_None:
  "api_key_manager (get_app ctx) = None \<Longrightarrow>
   with_key_manager ctx body = ([], Inr (encode (denial ''Auth not configured (dev mode)'')))"
  by (simp add: with_key_manager_def returns_def permission_denied_Inr)

lemma role_gate_cases:
  "role_gate call ctx = Inr None
   \<or> role_gate call ctx = Inr (Some (encode (denial ''ROOT role required'')))
   \<or> role_gate call ctx = Inr (Some (encode (denial ''ROOT or account ADMIN role required'')))"
  by (cases call) (simp_all add: require_root_eq require_admin_or_root_eq)

lemma role_gate_denial_nonempty: "role_gate call ctx = Inr (Some d) \<Longrightarrow> d \<noteq> []"
proof
  assume gate: "role_gate call ctx = Inr (Some d)" and empty: "d = []"
  from role_gate_cases [of call ctx] gate
  have "d = encode (denial ''ROOT role required'')
          \<or> d = encode (denial ''ROOT or account ADMIN role required'')"
    by simp
  with empty encode_denial_nonempty [of "''ROOT role required''"]
    encode_denial_nonempty [of "''ROOT or account ADMIN role required''"]
  show False by metis
qed

lemma denial_texts_differ:
  "encode (denial ''ROOT role required'') \<noteq> encode (denial ''Auth not configured (dev mode)'')"
  "encode (denial ''ROOT or account ADMIN role required'')
     \<noteq> encode (denial ''Auth not configured (dev mode)'')"
proof -
  have "json_loads (encode (denial ''ROOT role required''))
          \<noteq> json_loads (encode (denial ''Auth not configured (dev mode)''))"
    unfolding loads_root_denial loads_dev_denial by (simp add: denial_def)
  then show "encode (denial ''ROOT role required'')
               \<noteq> encode (denial ''Auth not configured (dev mode)'')"
    by auto
  have "json_loads (encode (denial ''ROOT or account ADMIN role required''))
          \<noteq> json_loads (encode (denial ''Auth not configured (dev mode)''))"
    unfolding loads_admin_denial loads_dev_denial by (simp add: denial_def)
  then show "encode (denial ''ROOT or account ADMIN role required'')
               \<noteq> encode (denial ''Auth not configured (dev mode)'')"
    by auto
qed

lemma run_admin_tool_denied:
  assumes "role_gate call ctx = Inr (Some d)"
  shows "run_admin_tool call ctx = ([], Inr d)"
proof -
  from assms have "d \<noteq> []" by (rule role_gate_denial_nonempty)
  with assms show ?thesis
    by (cases call)
       (simp_all add: admin_create_account_def admin_list_accounts_def admin_delete_account_def
          admin_register_user_def admin_list_users_def admin_remove_user_def admin_set_role_def
          guarded_Some except_OpenVikingError_Inr)
qed

lemma run_admin_tool_dev_mode:
  assumes "role_gate call ctx = Inr None" and "api_key_manager (get_app ctx) = None"
  shows "run_admin_tool call ctx
           = ([], Inr (encode (denial ''Auth not configured (dev mode)'')))"
  using assms
  by (cases call)
     (simp_all add: admin_create_account_def admin_list_accounts_def admin_delete_account_def
        admin_register_user_def admin_list_users_def admin_remove_user_def admin_set_role_def
        guarded_None with_key_manager_None except_OpenVikingError_Inr)

text \<open>
  Claim C6. For each of the seven admin tools (account creation, listing and deletion,
  user registration, listing and removal, role change): when the key manager is absent,
  the tool makes no call on the key manager or on the service and ends with a denial.
  When the role gate authorized the caller, the response is the text of
  \<^verbatim>\<open>permission_denied("Auth not configured (dev mode)")\<close>, which parses to the denial
  with that message; when the role gate denied, the response is the denial of the gate.
\<close>

theorem admin_tools_reject_without_key_manager:
  "api_key_manager (get_app ctx) = None \<Longrightarrow>
   fst (run_admin_tool call ctx) = []
   \<and> (role_gate call ctx = Inr None \<longrightarrow>
        (\<exists>s. run_admin_tool call ctx = ([], Inr s)
           \<and> permission_denied ''Auth not configured (dev mode)'' = Inr s
           \<and> json_loads s = Some (denial ''Auth not configured (dev mode)'')))
   \<and> (\<forall>d. role_gate call ctx = Inr (Some d) \<longrightarrow> run_admin_tool call ctx = ([], Inr d))"
  using role_gate_cases [of call ctx]
  by (auto simp: run_admin_tool_dev_mode run_admin_tool_denied permission_denied_Inr
        loads_dev_denial)

theorem admin_tools_reject_without_key_manager_witness:
  "api_key_manager (get_app (sample_context None None)) = None
   \<and> role_gate (CreateAccount ''acme'' ''alice'') (sample_context None None) = Inr None
   \<and> run_admin_tool (CreateAccount ''acme'' ''alice'') (sample_context None None)
       = ([], Inr (encode (denial ''Auth not configured (dev mode)'')))
   \<and> json_loads (encode (denial ''Auth not configured (dev mode)''))
       = Some (denial ''Auth not configured (dev mode)'')"
  using admin_tools_reject_without_key_manager
          [of "sample_context None None" "CreateAccount ''acme'' ''alice''"]
  by (simp add: permission_denied_Inr loads_dev_denial require_root_eq get_app_def
        get_request_context_def getattr_ov_identity_def sample_context_def)

text \<open>
  Claim C10. In each admin tool the role gate comes before the test of the key manager: a
  caller whom the gate denies receives the denial of the gate ("ROOT role required" or
  "ROOT or account ADMIN role required"), whether or not a key manager is present, and no
  call is made; this text is never the dev-mode denial. A response that is the denial
  "Auth not configured (dev mode)" is returned only to a caller who passed the gate.
\<close>

theorem role_gate_before_key_manager_check:
  "(\<forall>d. role_gate call ctx = Inr (Some d) \<longrightarrow>
        run_admin_tool call ctx = ([], Inr d)
        \<and> (json_loads d = Some (denial ''ROOT role required'')
             \<or> json_loads d = Some (denial ''ROOT or account ADMIN role required''))
        \<and> Inr d \<noteq> permission_denied ''Auth not configured (dev mode)'')
   \<and> (snd (run_admin_tool call ctx) = permission_denied ''Auth not configured (dev mode)'' \<longrightarrow>
        role_gate call ctx = Inr None)"
  using role_gate_cases [of call ctx]
  by (auto simp: run_admin_tool_denied permission_denied_Inr loads_root_denial
        loads_admin_denial denial_texts_differ denial_texts_differ [symmetric])

theorem role_gate_before_key_manager_check_witness:
  "api_key_manager (get_app (sample_context (Some (sample_identity USER)) None)) = None
   \<and> role_gate ListAccounts (sample_context (Some (sample_identity USER)) None)
       = Inr (Some (encode (denial ''ROOT role required'')))
   \<and> run_admin_tool ListAccounts (sample_context (Some (sample_identity USER)) None)
       = ([], Inr (encode (denial ''ROOT role required'')))
   \<and> snd (run_admin_tool ListAccounts (sample_context None None))
       = permission_denied ''Auth not configured (dev mode)''
   \<and> role_gate ListAccounts (sample_context None None) = Inr None"
  using role_gate_before_key_manager_check
          [of ListAccounts "sample_context (Some (sample_identity USER)) None"]
        role_gate_before_key_manager_check [of ListAccounts "sample_context None None"]
  by (simp add: permission_denied_Inr require_root_eq get_app_def get_request_context_def
        getattr_ov_identity_def sample_context_def sample_identity_def str_or_def
        admin_list_accounts_def guarded_None with_key_manager_None except_OpenVikingError_Inr)

section \<open>Strings are read back\<close>





section \<open>Integers are read back\<close>













section \<open>Values are read back\<close>



















section \<open>The error envelope\<close>




end
